theory Spec2Isabelle
  imports Main "HOL-Library.Word"
begin

section \<open>API gateway: relay dispatcher, error translator and envelope cipher\<close>

text \<open>
  A shallow embedding of the gateway's helper module: \<open>relay\<close>, \<open>handleError\<close>,
  \<open>encryptKey\<close>, \<open>decryptKey\<close>, \<open>encryptData\<close>, \<open>decryptData\<close>,
  \<open>decryptRequest\<close> and \<open>encryptResponse\<close>.

  Exceptions are values of a sum type (\<open>Inl\<close> the thrown error). The functions that
  touch Node's \<open>crypto\<close> module thread a state through: the bytes the random source
  will deliver next, and the log of the calls made into the module.

  What the module takes from its platform and cannot be read off its own text enters as
  a parameter (the record \<open>platform\<close>): \<open>JSON.parse\<close>, \<open>JSON.stringify\<close>, the table of
  symmetric algorithms behind \<open>createCipheriv\<close>, the PEM key decoder and the configured
  default algorithm. RSA with PKCS#1 v1.5 padding, base64, hex and UTF-8 are written out.
\<close>

subsection \<open>JavaScript values\<close>

text \<open>
  The values the module handles dynamically (\<open>any\<close>, parsed JSON, RPC replies). An object
  is the list of its properties in insertion order. Numbers are only ever tested for
  truthiness here; integers stand for them.
\<close>

datatype js =
    Undefined
  | Null
  | Bool bool
  | Num int
  | Str string
  | Arr "js list"
  | Obj "(string \<times> js) list"

text \<open>Truthiness, as tested by \<open>if (x)\<close> and \<open>!x\<close>.\<close>

fun truthy :: "js \<Rightarrow> bool" where
  "truthy Undefined = False"
| "truthy Null = False"
| "truthy (Bool b) = b"
| "truthy (Num n) = (n \<noteq> 0)"
| "truthy (Str s) = (s \<noteq> [])"
| "truthy (Arr xs) = True"
| "truthy (Obj ps) = True"

text \<open>
  Modelled from the spec: the error classes of \<open>./errors\<close> (\<open>AppError\<close> and its
  variants), which the module imports; section 7 of the specification lists what each
  carries. \<open>TypeError\<close>, \<open>SyntaxError\<close> and \<open>Error\<close> are the platform's own errors, with
  their message.
\<close>

datatype js_error =
    AuthenticationError js
  | ResourceNotFound js
  | ServiceError js
  | ParserError js js js
  | TypeError string
  | SyntaxError string
  | Error string

text \<open>The \<open>message\<close> property of a caught error.\<close>

fun message :: "js_error \<Rightarrow> js" where
  "message (AuthenticationError m) = m"
| "message (ResourceNotFound m) = m"
| "message (ServiceError m) = m"
| "message (ParserError m e l) = m"
| "message (TypeError m) = Str m"
| "message (SyntaxError m) = Str m"
| "message (Error m) = Str m"

text \<open>
  Reading a named property for the names the module uses (none of which is a built-in
  property of a string or an array): \<open>undefined\<close> where the value has no such
  property. \<open>member\<close> is the member expression \<open>v.k\<close> and the destructuring pattern
  \<open>{k} = v\<close>, which throw on \<open>null\<close> and \<open>undefined\<close>; \<open>get\<close> is lodash's \<open>get\<close>
  with a dotted path, which never throws.
\<close>

fun property :: "js \<Rightarrow> string \<Rightarrow> js" where
  "property (Obj ps) k = (case map_of ps k of None \<Rightarrow> Undefined | Some v \<Rightarrow> v)"
| "property v k = Undefined"

fun member :: "js \<Rightarrow> string \<Rightarrow> js_error + js" where
  "member Undefined k = Inl (TypeError (''Cannot read property '' @ k @ '' of undefined''))"
| "member Null k = Inl (TypeError (''Cannot read property '' @ k @ '' of null''))"
| "member v k = Inr (property v k)"

definition get :: "js \<Rightarrow> string list \<Rightarrow> js" where
  "get v path = foldl property v path"

subsection \<open>Buffers and their encodings\<close>

type_synonym byte = "8 word"
type_synonym buffer = "byte list"

text \<open>\<open>buf.toString('hex')\<close>: two lowercase digits per byte.\<close>

definition hexDigit :: "nat \<Rightarrow> char" where
  "hexDigit d = (if d < 10 then char_of (48 + d) else char_of (87 + d))"

definition hexByte :: "byte \<Rightarrow> string" where
  "hexByte b = [hexDigit (unat b div 16), hexDigit (unat b mod 16)]"

definition toHex :: "buffer \<Rightarrow> string" where
  "toHex bs = concat (map hexByte bs)"

text \<open>A lowercase hexadecimal digit: \<open>0\<close> to \<open>9\<close> or \<open>a\<close> to \<open>f\<close>.\<close>

definition lower_hex :: "char \<Rightarrow> bool" where
  "lower_hex c \<longleftrightarrow>
     (48 \<le> (of_char c :: nat) \<and> (of_char c :: nat) \<le> 57)
       \<or> (97 \<le> (of_char c :: nat) \<and> (of_char c :: nat) \<le> 102)"

text \<open>
  \<open>Buffer.from(s, 'utf8')\<close> and \<open>buf.toString('utf8')\<close>. A character of the model is a
  code point below U+0100, so it takes one or two bytes. The decoder never fails: bytes
  that are no encoding of such a character come out as the substitute character.
\<close>

definition utf8_char :: "char \<Rightarrow> buffer" where
  "utf8_char c =
     (if (of_char c :: nat) < 128 then [of_nat (of_char c)]
      else [of_nat (192 + (of_char c :: nat) div 64), of_nat (128 + (of_char c :: nat) mod 64)])"

definition utf8_encode :: "string \<Rightarrow> buffer" where
  "utf8_encode s = concat (map utf8_char s)"

definition substitute :: char where
  "substitute = CHR 0x1A"

fun utf8_decode :: "buffer \<Rightarrow> string" where
  "utf8_decode [] = []"
| "utf8_decode [b] = (if unat b < 128 then [char_of (unat b)] else [substitute])"
| "utf8_decode (b # c # bs) =
     (if unat b < 128 then char_of (unat b) # utf8_decode (c # bs)
      else if (unat b = 194 \<or> unat b = 195) \<and> 128 \<le> unat c \<and> unat c < 192
        then char_of ((unat b - 192) * 64 + (unat c - 128)) # utf8_decode bs
      else substitute # utf8_decode (c # bs))"

text \<open>
  \<open>buf.toString('base64')\<close> and \<open>Buffer.from(s, 'base64')\<close>. Decoding is lenient, as
  Node's is: it stops at the first \<open>=\<close>, skips what is not in the alphabet, reads the
  URL-safe digits too, and never fails.
\<close>

definition b64char :: "nat \<Rightarrow> char" where
  "b64char n =
     (if n < 26 then char_of (65 + n)
      else if n < 52 then char_of (71 + n)
      else if n < 62 then char_of (n - 4)
      else if n = 62 then CHR ''+'' else CHR ''/'')"

fun b64encode :: "buffer \<Rightarrow> string" where
  "b64encode [] = []"
| "b64encode [a] =
     [b64char (unat a div 4), b64char (unat a mod 4 * 16), CHR ''='', CHR ''='']"
| "b64encode [a, b] =
     [b64char (unat a div 4), b64char (unat a mod 4 * 16 + unat b div 16),
      b64char (unat b mod 16 * 4), CHR ''='']"
| "b64encode (a # b # c # bs) =
     [b64char (unat a div 4), b64char (unat a mod 4 * 16 + unat b div 16),
      b64char (unat b mod 16 * 4 + unat c div 64), b64char (unat c mod 64)] @ b64encode bs"

definition b64val :: "char \<Rightarrow> nat option" where
  "b64val c =
     (let n = (of_char c :: nat) in
      if 65 \<le> n \<and> n \<le> 90 then Some (n - 65)
      else if 97 \<le> n \<and> n \<le> 122 then Some (n - 71)
      else if 48 \<le> n \<and> n \<le> 57 then Some (n + 4)
      else if c = CHR ''+'' \<or> c = CHR ''-'' then Some 62
      else if c = CHR ''/'' \<or> c = CHR ''_'' then Some 63
      else None)"

fun b64bytes :: "nat list \<Rightarrow> buffer" where
  "b64bytes (a # b # c # d # r) =
     [of_nat (a * 4 + b div 16), of_nat (b mod 16 * 16 + c div 4), of_nat (c mod 4 * 64 + d)]
       @ b64bytes r"
| "b64bytes [a, b, c] = [of_nat (a * 4 + b div 16), of_nat (b mod 16 * 16 + c div 4)]"
| "b64bytes [a, b] = [of_nat (a * 4 + b div 16)]"
| "b64bytes r = []"

definition sextets :: "string \<Rightarrow> nat list" where
  "sextets s = List.map_filter b64val (takeWhile (\<lambda>c. c \<noteq> CHR ''='') s)"

definition b64decode :: "string \<Rightarrow> buffer" where
  "b64decode s = b64bytes (sextets s)"

text \<open>\<open>Buffer.from(v, encoding)\<close> on a value that should be a string.\<close>

datatype encoding = Utf8 | Base64

fun Buffer_from :: "js \<Rightarrow> encoding \<Rightarrow> js_error + buffer" where
  "Buffer_from (Str s) Utf8 = Inr (utf8_encode s)"
| "Buffer_from (Str s) Base64 = Inr (b64decode s)"
| "Buffer_from v enc = Inl (TypeError ''The first argument must be of type string'')"

subsection \<open>The platform\<close>

text \<open>
  A symmetric algorithm of the crypto module: the key and iv lengths it demands and what
  \<open>update\<close> followed by \<open>final\<close> computes from key, iv and the whole input. An RSA key
  as the PEM decoder delivers it; a public key has no private exponent.
\<close>

record cipher =
  keyLength :: nat
  ivLength :: nat
  encipher :: "buffer \<Rightarrow> buffer \<Rightarrow> buffer \<Rightarrow> buffer"
  decipher :: "buffer \<Rightarrow> buffer \<Rightarrow> buffer \<Rightarrow> js_error + buffer"

record rsa_key =
  modulus :: int
  publicExponent :: int
  privateExponent :: "int option"

record platform =
  JSON_parse :: "js \<Rightarrow> js_error + js"
  JSON_stringify :: "js \<Rightarrow> js"
  cipherInfo :: "string \<Rightarrow> cipher option"
  readKey :: "string \<Rightarrow> rsa_key option"
  algorithmEncrypt :: string

text \<open>
  The state behind the crypto module: the bytes its random source delivers next, and the
  calls made into it so far, oldest first.
\<close>

datatype crypto_call =
    RandomBytes nat
  | PublicEncrypt js buffer
  | PublicDecrypt js buffer
  | CreateCipheriv string js js
  | CipherUpdate js
  | CipherFinal
  | CreateDecipheriv string js js
  | DecipherUpdate js
  | DecipherFinal

record crypto_state =
  entropy :: buffer
  calls :: "crypto_call list"

definition called :: "crypto_call \<Rightarrow> crypto_state \<Rightarrow> crypto_state" where
  "called c st = st\<lparr>calls := calls st @ [c]\<rparr>"

text \<open>\<open>crypto.randomBytes(n)\<close>; it throws when the source cannot deliver.\<close>

definition randomBytes :: "nat \<Rightarrow> crypto_state \<Rightarrow> (js_error + buffer) \<times> crypto_state" where
  "randomBytes n st =
     (let st1 = called (RandomBytes n) st in
      if length (entropy st1) < n then (Inl (Error ''PRNG not seeded''), st1)
      else (Inr (take n (entropy st1)), st1\<lparr>entropy := drop n (entropy st1)\<rparr>))"

subsection \<open>RSA with PKCS\#1 v1.5 padding\<close>

text \<open>
  Modular exponentiation by repeated squaring, the octet length of the modulus, and the
  two conversions between octet strings and integers (big-endian).
\<close>

definition mulmod :: "int \<Rightarrow> int \<Rightarrow> int \<Rightarrow> int" where
  "mulmod a b n = (a * b) mod n"

definition sqmod :: "int \<Rightarrow> int \<Rightarrow> int" where
  "sqmod a n = (a * a) mod n"

function modpow :: "int \<Rightarrow> int \<Rightarrow> int \<Rightarrow> int" where
  "modpow b x n =
     (if x \<le> 0 then 1 mod n
      else if x mod 2 = 0 then sqmod (modpow b (x div 2) n) n
      else mulmod (sqmod (modpow b (x div 2) n) n) b n)"
  by pat_completeness auto
termination
  by (relation "measure (\<lambda>(b, x, n). nat x)") auto

declare modpow.simps [simp del]

function octets :: "int \<Rightarrow> nat" where
  "octets n = (if n \<le> 0 then 0 else Suc (octets (n div 256)))"
  by pat_completeness auto
termination
  by (relation "measure nat") auto

declare octets.simps [simp del]

definition os2ip :: "buffer \<Rightarrow> int" where
  "os2ip bs = foldl (\<lambda>a b. a * 256 + uint b) 0 bs"

primrec i2osp :: "nat \<Rightarrow> int \<Rightarrow> buffer" where
  "i2osp 0 x = []"
| "i2osp (Suc l) x = i2osp l (x div 256) @ [word_of_int (x mod 256)]"







text \<open>
  The padding string of block type 2 is made of nonzero random bytes: the library draws
  bytes and draws again for each zero, so the model takes the next nonzero bytes of the
  random source. Block type 1 is padded with \<open>0xFF\<close>.
\<close>

fun draw_nonzero :: "nat \<Rightarrow> buffer \<Rightarrow> (buffer \<times> buffer) option" where
  "draw_nonzero 0 tape = Some ([], tape)"
| "draw_nonzero (Suc j) [] = None"
| "draw_nonzero (Suc j) (b # tape) =
     (if b = 0 then draw_nonzero (Suc j) tape
      else (case draw_nonzero j tape of
              None \<Rightarrow> None
            | Some (ps, rest) \<Rightarrow> Some (b # ps, rest)))"


definition pad_type_2 :: "buffer \<Rightarrow> buffer \<Rightarrow> buffer" where
  "pad_type_2 ps m = [0, 2] @ ps @ [0] @ m"

text \<open>
  The checks on a decrypted block of \<open>k\<close> octets: \<open>00 || BT || PS || 00 || D\<close> with at
  least eight octets of padding, all \<open>0xFF\<close> for block type 1 and all nonzero for block
  type 2.
\<close>

definition check_type_1 :: "buffer \<Rightarrow> js_error + buffer" where
  "check_type_1 em =
     (if length em < 11 then Inl (Error ''invalid padding'')
      else case em of
        a # b # rest \<Rightarrow>
          if a \<noteq> 0 then Inl (Error ''invalid padding'')
          else if b \<noteq> 1 then Inl (Error ''block type is not 01'')
          else (case dropWhile (\<lambda>x. x = 255) rest of
                  [] \<Rightarrow> Inl (Error ''null before block missing'')
                | z # d \<Rightarrow>
                    if z \<noteq> 0 then Inl (Error ''bad fixed header decrypt'')
                    else if length (takeWhile (\<lambda>x. x = 255) rest) < 8
                      then Inl (Error ''bad pad byte count'')
                    else Inr d)
      | _ \<Rightarrow> Inl (Error ''invalid padding''))"


text \<open>The \<open>key\<close> option of the four RSA calls: a PEM string, decoded by the platform.\<close>

definition rsa_key_of :: "platform \<Rightarrow> js \<Rightarrow> js_error + rsa_key" where
  "rsa_key_of rt key =
     (case key of
        Str pem \<Rightarrow>
          (case readKey rt pem of
             None \<Rightarrow> Inl (Error ''PEM routines: no start line'')
           | Some K \<Rightarrow> Inr K)
      | _ \<Rightarrow> Inl (TypeError ''The key argument must be of type string''))"

text \<open>
  \<open>crypto.publicEncrypt\<close> and \<open>crypto.publicDecrypt\<close> with \<open>RSA_PKCS1_PADDING\<close>. Both
  raise the input to the public exponent; a private key may be passed instead of a public
  key, and then its public part is used. \<open>publicEncrypt\<close> pads with block type 2,
  \<open>publicDecrypt\<close> expects block type 1.
\<close>

definition publicEncrypt ::
  "platform \<Rightarrow> js \<Rightarrow> buffer \<Rightarrow> crypto_state \<Rightarrow> (js_error + buffer) \<times> crypto_state" where
  "publicEncrypt rt key data st =
     (let st1 = called (PublicEncrypt key data) st in
      case rsa_key_of rt key of
        Inl e \<Rightarrow> (Inl e, st1)
      | Inr K \<Rightarrow>
          if octets (modulus K) < length data + 11
            then (Inl (Error ''data too large for key size''), st1)
          else (case draw_nonzero (octets (modulus K) - length data - 3) (entropy st1) of
                  None \<Rightarrow> (Inl (Error ''PRNG not seeded''), st1\<lparr>entropy := []\<rparr>)
                | Some (ps, rest) \<Rightarrow>
                    (Inr (i2osp (octets (modulus K))
                            (modpow (os2ip (pad_type_2 ps data)) (publicExponent K) (modulus K))),
                     st1\<lparr>entropy := rest\<rparr>)))"

definition publicDecrypt ::
  "platform \<Rightarrow> js \<Rightarrow> buffer \<Rightarrow> crypto_state \<Rightarrow> (js_error + buffer) \<times> crypto_state" where
  "publicDecrypt rt key data st =
     (let st1 = called (PublicDecrypt key data) st in
      case rsa_key_of rt key of
        Inl e \<Rightarrow> (Inl e, st1)
      | Inr K \<Rightarrow>
          if octets (modulus K) < length data
            then (Inl (Error ''data greater than mod len''), st1)
          else if modulus K \<le> os2ip data
            then (Inl (Error ''data too large for modulus''), st1)
          else (check_type_1 (i2osp (octets (modulus K))
                                (modpow (os2ip data) (publicExponent K) (modulus K))),
                st1))"



subsection \<open>Symmetric ciphers\<close>

text \<open>
  The argument checks of \<open>createCipheriv\<close> and \<open>createDecipheriv\<close>: key and iv are
  strings (read as UTF-8) of the lengths the algorithm demands; an algorithm without an
  iv takes \<open>null\<close>.
\<close>

definition cipher_args ::
  "platform \<Rightarrow> string \<Rightarrow> js \<Rightarrow> js \<Rightarrow> js_error + (cipher \<times> buffer \<times> buffer)" where
  "cipher_args rt algorithm key iv =
     (case Buffer_from key Utf8 of
        Inl e \<Rightarrow> Inl (TypeError ''The key argument must be of type string'')
      | Inr k \<Rightarrow>
          (case (if iv = Null then Inr [] else Buffer_from iv Utf8) of
             Inl e \<Rightarrow> Inl (TypeError ''The iv argument must be of type string'')
           | Inr v \<Rightarrow>
               (case cipherInfo rt algorithm of
                  None \<Rightarrow> Inl (Error ''Unknown cipher'')
                | Some c \<Rightarrow>
                    if length k \<noteq> keyLength c then Inl (Error ''Invalid key length'')
                    else if length v \<noteq> ivLength c then Inl (Error ''Invalid IV length'')
                    else Inr (c, k, v))))"

subsection \<open>The relay dispatcher\<close>

text \<open>
  How the promise that \<open>relay\<close> returns ends: resolved, rejected, or left pending by an
  exception thrown inside the RPC callback (which nothing catches).
\<close>

datatype outcome =
    Resolved js
  | Rejected js_error
  | Uncaught js_error

text \<open>The callback that \<open>relay\<close> hands to \<open>client.callRequest\<close>, applied to the reply.\<close>

definition relay_callback :: "platform \<Rightarrow> string \<Rightarrow> js \<Rightarrow> outcome" where
  "relay_callback rt url response =
     (let error = get response [''error''] in
      if truthy error then
        (case JSON_parse rt error of
           Inl e \<Rightarrow> Uncaught e
         | Inr parsedError \<Rightarrow>
             (let extensions = get parsedError [''extensions''];
                  message = get parsedError [''message''];
                  locations = get parsedError [''locations'']
              in Rejected (ParserError message extensions locations)))
      else
        (let data = get response [''data''] in
         if \<not> truthy data then Rejected (ServiceError (Str (url @ '' is not found'')))
         else (case JSON_parse rt data of
                 Inl e \<Rightarrow> Uncaught e
               | Inr v \<Rightarrow> Resolved (Obj [(''data'', v)]))))"

text \<open>
  The request that \<open>relay\<close> sends: the transport headers, serialized, and the raw query
  text, both taken from the request handle in the operation's context. Reading them
  throws when the context holds no request or the request has no body.
\<close>

definition relay_request :: "platform \<Rightarrow> js \<Rightarrow> js_error + js" where
  "relay_request rt operation =
     (let graphqlContext = get operation [''context'', ''graphqlContext''];
          req = get graphqlContext [''req'']
      in case member req ''headers'' of
           Inl e \<Rightarrow> Inl e
         | Inr headers \<Rightarrow>
             (case member (property req ''body'') ''query'' of
                Inl e \<Rightarrow> Inl e
              | Inr query \<Rightarrow>
                  Inr (Obj [(''headers'', JSON_stringify rt headers), (''query'', query)])))"

text \<open>
  \<open>relay url operation\<close>. The backend is a parameter: \<open>callRequest url request\<close> is the
  reply that the client bound to \<open>url\<close> passes to the callback. An exception thrown
  while the request is built rejects the promise.
\<close>

definition relay :: "platform \<Rightarrow> (string \<Rightarrow> js \<Rightarrow> js) \<Rightarrow> string \<Rightarrow> js \<Rightarrow> outcome" where
  "relay rt callRequest url operation =
     (case relay_request rt operation of
        Inl e \<Rightarrow> Rejected e
      | Inr request \<Rightarrow> relay_callback rt url (callRequest url request))"

subsection \<open>The error translator\<close>

text \<open>
  The error object that \<open>handleError\<close> receives: its own properties in insertion order,
  each enumerable or not, and what a read finds along the prototype chain for the names
  it does not own. The object pattern \<open>{ message, code, ...rest }\<close> reads \<open>message\<close> and
  \<open>code\<close> like any property and collects in \<open>rest\<close> the remaining own enumerable
  properties.
\<close>

record own_property =
  name :: string
  val :: js
  enumerable :: bool

record error_object =
  own :: "own_property list"
  inherited :: "string \<Rightarrow> js"

definition read :: "error_object \<Rightarrow> string \<Rightarrow> js" where
  "read err k =
     (case find (\<lambda>p. name p = k) (own err) of
        Some p \<Rightarrow> val p
      | None \<Rightarrow> inherited err k)"

definition rest_properties :: "string list \<Rightarrow> error_object \<Rightarrow> (string \<times> js) list" where
  "rest_properties taken err =
     map (\<lambda>p. (name p, val p)) (filter (\<lambda>p. enumerable p \<and> name p \<notin> set taken) (own err))"

record http_response =
  status :: nat
  body :: js
  next_called :: bool

definition handleError :: "error_object \<Rightarrow> http_response" where
  "handleError err =
     (let message = read err ''message'';
          code = read err ''code'';
          rest = rest_properties [''message'', ''code''] err
      in \<lparr>status = 200,
          body = Obj [(''errors'', Arr [Obj ([(''code'', code), (''message'', message)] @ rest)])],
          next_called = True\<rparr>)"

subsection \<open>The envelope cipher\<close>

definition encryptKey ::
  "platform \<Rightarrow> js \<Rightarrow> js \<Rightarrow> crypto_state \<Rightarrow> (js_error + string) \<times> crypto_state" where
  "encryptKey rt publicKey symmetricKey st =
     (case Buffer_from symmetricKey Utf8 of
        Inl e \<Rightarrow> (Inl e, st)
      | Inr buf \<Rightarrow>
          (case publicEncrypt rt publicKey buf st of
             (Inl e, st1) \<Rightarrow> (Inl e, st1)
           | (Inr c, st1) \<Rightarrow> (Inr (b64encode c), st1)))"

definition decryptKey ::
  "platform \<Rightarrow> js \<Rightarrow> js \<Rightarrow> crypto_state \<Rightarrow> (js_error + string) \<times> crypto_state" where
  "decryptKey rt publicKey encryptedKey st =
     (case Buffer_from encryptedKey Base64 of
        Inl e \<Rightarrow> (Inl e, st)
      | Inr buf \<Rightarrow>
          (case publicDecrypt rt publicKey buf st of
             (Inl e, st1) \<Rightarrow> (Inl e, st1)
           | (Inr m, st1) \<Rightarrow> (Inr (utf8_decode m), st1)))"

text \<open>
  \<open>update\<close> and \<open>final\<close> with an output encoding go through one string decoder, so the two
  pieces concatenated are the encoding of the whole output.
\<close>

definition encryptData ::
  "platform \<Rightarrow> js \<Rightarrow> js \<Rightarrow> js \<Rightarrow> string \<Rightarrow> crypto_state \<Rightarrow> (js_error + string) \<times> crypto_state" where
  "encryptData rt data symmetricKey iv algorithm st =
     (let st1 = called (CreateCipheriv algorithm symmetricKey iv) st in
      case cipher_args rt algorithm symmetricKey iv of
        Inl e \<Rightarrow> (Inl e, st1)
      | Inr (c, k, v) \<Rightarrow>
          (let st2 = called (CipherUpdate data) st1 in
           case Buffer_from data Utf8 of
             Inl e \<Rightarrow> (Inl e, st2)
           | Inr plain \<Rightarrow> (Inr (b64encode (encipher c k v plain)), called CipherFinal st2)))"

definition decryptData ::
  "platform \<Rightarrow> js \<Rightarrow> js \<Rightarrow> js \<Rightarrow> string \<Rightarrow> crypto_state \<Rightarrow> (js_error + string) \<times> crypto_state" where
  "decryptData rt encryptedData symmetricKey iv algorithm st =
     (let st1 = called (CreateDecipheriv algorithm symmetricKey iv) st in
      case cipher_args rt algorithm symmetricKey iv of
        Inl e \<Rightarrow> (Inl e, st1)
      | Inr (c, k, v) \<Rightarrow>
          (let st2 = called (DecipherUpdate encryptedData) st1 in
           case Buffer_from encryptedData Base64 of
             Inl e \<Rightarrow> (Inl e, st2)
           | Inr ct \<Rightarrow>
               (case decipher c k v ct of
                  Inl e \<Rightarrow> (Inl e, called DecipherFinal st2)
                | Inr plain \<Rightarrow> (Inr (utf8_decode plain), called DecipherFinal st2))))"

text \<open>The body of the \<open>try\<close> block of \<open>decryptRequest\<close>.\<close>

definition decryptRequest_try ::
  "platform \<Rightarrow> js \<Rightarrow> js \<Rightarrow> js \<Rightarrow> string \<Rightarrow> crypto_state \<Rightarrow> (js_error + string) \<times> crypto_state" where
  "decryptRequest_try rt encryptedData encryptedKey publicKey algorithm st =
     (case decryptKey rt publicKey encryptedKey st of
        (Inl e, st1) \<Rightarrow> (Inl e, st1)
      | (Inr blob, st1) \<Rightarrow>
          (case JSON_parse rt (Str blob) of
             Inl e \<Rightarrow> (Inl e, st1)
           | Inr parsed \<Rightarrow>
               (case member parsed ''key'' of
                  Inl e \<Rightarrow> (Inl e, st1)
                | Inr key \<Rightarrow>
                    decryptData rt encryptedData key (property parsed ''iv'') algorithm st1)))"

definition decryptRequest ::
  "platform \<Rightarrow> js \<Rightarrow> js \<Rightarrow> string \<Rightarrow> crypto_state \<Rightarrow> (js_error + string) \<times> crypto_state" where
  "decryptRequest rt data publicKey algorithm st =
     (case member data ''encryptedData'' of
        Inl e \<Rightarrow> (Inl e, st)
      | Inr encryptedData \<Rightarrow>
          (let encryptedKey = property data ''encryptedKey'' in
           if \<not> truthy encryptedData \<or> \<not> truthy encryptedKey
             then (Inl (AuthenticationError (Str ''encrypted data, encrypted key cannot null'')), st)
           else (case decryptRequest_try rt encryptedData encryptedKey publicKey algorithm st of
                   (Inl error, st1) \<Rightarrow> (Inl (AuthenticationError (message error)), st1)
                 | (Inr decryptedData, st1) \<Rightarrow> (Inr decryptedData, st1))))"

text \<open>
  \<open>encryptResponse redis responseData apiKey algorithm\<close>. The credential store is what
  \<open>redis.get\<close> resolves to for each key (\<open>None\<close> for \<open>null\<close>); an omitted \<open>algorithm\<close> is
  the configured one.
\<close>

definition encryptResponse ::
  "platform \<Rightarrow> (string \<Rightarrow> string option) \<Rightarrow> js \<Rightarrow> string \<Rightarrow> string option \<Rightarrow> crypto_state
     \<Rightarrow> (js_error + js) \<times> crypto_state" where
  "encryptResponse rt redis responseData apiKey algorithm st =
     (case redis apiKey of
        None \<Rightarrow> (Inl (ResourceNotFound (Str ''Invalid api key'')), st)
      | Some apiKeyData \<Rightarrow>
          if apiKeyData = [] then (Inl (ResourceNotFound (Str ''Invalid api key'')), st)
          else
            (case JSON_parse rt (Str apiKeyData) of
               Inl e \<Rightarrow> (Inl e, st)
             | Inr userData \<Rightarrow>
                 (let publicKey = get userData [''account'', ''publicKey''] in
                  case randomBytes 32 st of
                    (Inl e, st1) \<Rightarrow> (Inl e, st1)
                  | (Inr bytes32, st1) \<Rightarrow>
                      (let symmetricKey = take 32 (toHex bytes32) in
                       case randomBytes 16 st1 of
                         (Inl e, st2) \<Rightarrow> (Inl e, st2)
                       | (Inr bytes16, st2) \<Rightarrow>
                           (let iv = take 16 (toHex bytes16) in
                            case encryptData rt (JSON_stringify rt responseData)
                                   (Str symmetricKey) (Str iv)
                                   (case algorithm of None \<Rightarrow> algorithmEncrypt rt | Some a \<Rightarrow> a)
                                   st2 of
                              (Inl e, st3) \<Rightarrow> (Inl e, st3)
                            | (Inr encryptedData, st3) \<Rightarrow>
                                (case encryptKey rt publicKey
                                        (JSON_stringify rt
                                           (Obj [(''key'', Str symmetricKey), (''iv'', Str iv)]))
                                        st3 of
                                   (Inl e, st4) \<Rightarrow> (Inl e, st4)
                                 | (Inr encryptedKey, st4) \<Rightarrow>
                                     (Inr (Obj [(''encryptedData'', Str encryptedData),
                                                (''encryptedKey'', Str encryptedKey)]),
                                      st4)))))))"

section \<open>A reference platform\<close>

text \<open>
  One concrete platform, on which the functions above can be run: a JSON writer and
  reader for the values of the model, a stand-in symmetric algorithm with the key and iv
  lengths of AES-256-CBC, and a key decoder that knows a few RSA keys by name.
\<close>

subsection \<open>JSON text\<close>

function digits :: "nat \<Rightarrow> string" where
  "digits n = (if n < 10 then [char_of (48 + n)] else digits (n div 10) @ [char_of (48 + n mod 10)])"
  by pat_completeness auto
termination
  by (relation "measure id") auto

declare digits.simps [simp del]

definition show_int :: "int \<Rightarrow> string" where
  "show_int i = (if i < 0 then CHR ''-'' # digits (nat (- i)) else digits (nat i))"

definition escape :: "char \<Rightarrow> string" where
  "escape c =
     (if c = CHR 0x22 then [CHR 0x5C, CHR 0x22]
      else if c = CHR 0x5C then [CHR 0x5C, CHR 0x5C]
      else if c = CHR 0x0A then [CHR 0x5C, CHR ''n'']
      else if c = CHR 0x0D then [CHR 0x5C, CHR ''r'']
      else if c = CHR 0x09 then [CHR 0x5C, CHR ''t'']
      else if (of_char c :: nat) < 32
        then [CHR 0x5C, CHR ''u'', CHR ''0'', CHR ''0'',
              hexDigit ((of_char c :: nat) div 16), hexDigit ((of_char c :: nat) mod 16)]
      else [c])"

definition quote :: "string \<Rightarrow> string" where
  "quote s = [CHR 0x22] @ concat (map escape s) @ [CHR 0x22]"

fun join :: "string list \<Rightarrow> string" where
  "join [] = []"
| "join [x] = x"
| "join (x # y # r) = x @ '','' @ join (y # r)"

text \<open>
  \<open>JSON.stringify\<close>: \<open>None\<close> stands for the result \<open>undefined\<close>. An \<open>undefined\<close> array
  element is written \<open>null\<close>, an \<open>undefined\<close> member is left out.
\<close>

fun write_json :: "js \<Rightarrow> string option"
  and write_items :: "js list \<Rightarrow> string list"
  and write_members :: "(string \<times> js) list \<Rightarrow> string list" where
  "write_json Undefined = None"
| "write_json Null = Some ''null''"
| "write_json (Bool b) = Some (if b then ''true'' else ''false'')"
| "write_json (Num n) = Some (show_int n)"
| "write_json (Str s) = Some (quote s)"
| "write_json (Arr xs) = Some (''['' @ join (write_items xs) @ '']'')"
| "write_json (Obj ps) = Some (''{'' @ join (write_members ps) @ ''}'')"
| "write_items [] = []"
| "write_items (x # xs) =
     (case write_json x of None \<Rightarrow> ''null'' | Some t \<Rightarrow> t) # write_items xs"
| "write_members [] = []"
| "write_members (p # ps) =
     (case write_json (snd p) of
        None \<Rightarrow> write_members ps
      | Some t \<Rightarrow> (quote (fst p) @ '':'' @ t) # write_members ps)"

definition stringify :: "js \<Rightarrow> js" where
  "stringify v = (case write_json v of None \<Rightarrow> Undefined | Some t \<Rightarrow> Str t)"

text \<open>The reader: white space, string literals, integer literals, then values by descent.\<close>

definition is_space :: "char \<Rightarrow> bool" where
  "is_space c = (c = CHR '' '' \<or> c = CHR 0x0A \<or> c = CHR 0x0D \<or> c = CHR 0x09)"

definition is_digit :: "char \<Rightarrow> bool" where
  "is_digit c = (48 \<le> (of_char c :: nat) \<and> (of_char c :: nat) \<le> 57)"

definition skip_ws :: "string \<Rightarrow> string" where
  "skip_ws s = dropWhile is_space s"

fun read_string :: "string \<Rightarrow> (string \<times> string) option" where
  "read_string [] = None"
| "read_string (c # cs) =
     (if c = CHR 0x22 then Some ([], cs)
      else if (of_char c :: nat) < 32 then None
      else if c = CHR 0x5C then
        (case cs of
           [] \<Rightarrow> None
         | e # r \<Rightarrow>
             (case (if e = CHR 0x22 \<or> e = CHR 0x5C \<or> e = CHR ''/'' then Some e
                    else if e = CHR ''n'' then Some (CHR 0x0A)
                    else if e = CHR ''r'' then Some (CHR 0x0D)
                    else if e = CHR ''t'' then Some (CHR 0x09)
                    else None) of
                None \<Rightarrow> None
              | Some d \<Rightarrow>
                  (case read_string r of None \<Rightarrow> None | Some (t, rest) \<Rightarrow> Some (d # t, rest))))
      else (case read_string cs of None \<Rightarrow> None | Some (t, rest) \<Rightarrow> Some (c # t, rest)))"

definition digits_value :: "string \<Rightarrow> int" where
  "digits_value ds = foldl (\<lambda>a c. a * 10 + (of_char c - 48)) 0 ds"

definition read_number :: "string \<Rightarrow> (js \<times> string) option" where
  "read_number s =
     (let neg = (case s of c # r \<Rightarrow> c = CHR ''-'' | [] \<Rightarrow> False);
          t = (if neg then tl s else s);
          ds = takeWhile is_digit t
      in if ds = [] then None
         else Some (Num (if neg then - digits_value ds else digits_value ds), dropWhile is_digit t))"

fun read_value :: "nat \<Rightarrow> string \<Rightarrow> (js \<times> string) option"
  and read_items :: "nat \<Rightarrow> string \<Rightarrow> (js list \<times> string) option"
  and read_members :: "nat \<Rightarrow> string \<Rightarrow> ((string \<times> js) list \<times> string) option" where
  "read_value 0 s = None"
| "read_value (Suc f) s =
     (case skip_ws s of
        [] \<Rightarrow> None
      | c # r \<Rightarrow>
          if c = CHR ''{'' then
            (case skip_ws r of
               [] \<Rightarrow> None
             | d # r1 \<Rightarrow>
                 if d = CHR ''}'' then Some (Obj [], r1)
                 else (case read_members f r of
                         None \<Rightarrow> None
                       | Some (ps, rest) \<Rightarrow> Some (Obj ps, rest)))
          else if c = CHR ''['' then
            (case skip_ws r of
               [] \<Rightarrow> None
             | d # r1 \<Rightarrow>
                 if d = CHR '']'' then Some (Arr [], r1)
                 else (case read_items f r of
                         None \<Rightarrow> None
                       | Some (xs, rest) \<Rightarrow> Some (Arr xs, rest)))
          else if c = CHR 0x22 then
            (case read_string r of None \<Rightarrow> None | Some (t, rest) \<Rightarrow> Some (Str t, rest))
          else if take 4 (c # r) = ''null'' then Some (Null, drop 4 (c # r))
          else if take 4 (c # r) = ''true'' then Some (Bool True, drop 4 (c # r))
          else if take 5 (c # r) = ''false'' then Some (Bool False, drop 5 (c # r))
          else read_number (c # r))"
| "read_items 0 s = None"
| "read_items (Suc f) s =
     (case read_value f s of
        None \<Rightarrow> None
      | Some (v, r) \<Rightarrow>
          (case skip_ws r of
             [] \<Rightarrow> None
           | c # r1 \<Rightarrow>
               if c = CHR '']'' then Some ([v], r1)
               else if c = CHR '','' then
                 (case read_items f r1 of
                    None \<Rightarrow> None
                  | Some (vs, rest) \<Rightarrow> Some (v # vs, rest))
               else None))"
| "read_members 0 s = None"
| "read_members (Suc f) s =
     (case skip_ws s of
        [] \<Rightarrow> None
      | q # r \<Rightarrow>
          if q \<noteq> CHR 0x22 then None
          else (case read_string r of
                  None \<Rightarrow> None
                | Some (k, r1) \<Rightarrow>
                    (case skip_ws r1 of
                       [] \<Rightarrow> None
                     | c # r2 \<Rightarrow>
                         if c \<noteq> CHR '':'' then None
                         else (case read_value f r2 of
                                 None \<Rightarrow> None
                               | Some (v, r3) \<Rightarrow>
                                   (case skip_ws r3 of
                                      [] \<Rightarrow> None
                                    | d # r4 \<Rightarrow>
                                        if d = CHR ''}'' then Some ([(k, v)], r4)
                                        else if d = CHR '','' then
                                          (case read_members f r4 of
                                             None \<Rightarrow> None
                                           | Some (ps, rest) \<Rightarrow> Some ((k, v) # ps, rest))
                                        else None)))))"

text \<open>
  \<open>JSON.parse\<close> converts its argument to a string first. Every step of the descent
  consumes a character, so the length of the text is fuel enough.
\<close>

fun to_text :: "js \<Rightarrow> string" and items_text :: "js list \<Rightarrow> string list" where
  "to_text Undefined = ''undefined''"
| "to_text Null = ''null''"
| "to_text (Bool b) = (if b then ''true'' else ''false'')"
| "to_text (Num n) = show_int n"
| "to_text (Str s) = s"
| "to_text (Arr xs) = join (items_text xs)"
| "to_text (Obj ps) = ''[object Object]''"
| "items_text [] = []"
| "items_text (x # xs) =
     (if x = Undefined \<or> x = Null then [] else to_text x) # items_text xs"

definition parse :: "js \<Rightarrow> js_error + js" where
  "parse v =
     (case read_value (Suc (length (to_text v))) (to_text v) of
        None \<Rightarrow> Inl (SyntaxError ''Unexpected token in JSON'')
      | Some (x, rest) \<Rightarrow>
          if skip_ws rest = [] then Inr x else Inl (SyntaxError ''Unexpected token in JSON''))"

subsection \<open>A stand-in symmetric algorithm\<close>

text \<open>
  Not AES: each byte is combined with a byte of the key and a byte of the iv, after the
  input has been padded to whole blocks of sixteen bytes the way block ciphers pad
  (PKCS\#7). Deciphering under the wrong key mostly ends in \<open>bad decrypt\<close>, as it does
  with a real cipher.
\<close>

definition keystream :: "buffer \<Rightarrow> buffer \<Rightarrow> nat \<Rightarrow> byte" where
  "keystream k v i = k ! (i mod 32) + v ! (i mod 16) + of_nat i"

definition mask :: "buffer \<Rightarrow> buffer \<Rightarrow> buffer \<Rightarrow> buffer" where
  "mask k v bs = map (\<lambda>(i, b). b + keystream k v i) (enumerate 0 bs)"

definition unmask :: "buffer \<Rightarrow> buffer \<Rightarrow> buffer \<Rightarrow> buffer" where
  "unmask k v bs = map (\<lambda>(i, b). b - keystream k v i) (enumerate 0 bs)"

definition pkcs7_pad :: "buffer \<Rightarrow> buffer" where
  "pkcs7_pad bs = bs @ replicate (16 - length bs mod 16) (of_nat (16 - length bs mod 16))"

definition pkcs7_unpad :: "buffer \<Rightarrow> js_error + buffer" where
  "pkcs7_unpad bs =
     (if bs = [] \<or> length bs mod 16 \<noteq> 0 then Inl (Error ''wrong final block length'')
      else if unat (last bs) = 0 \<or> 16 < unat (last bs)
              \<or> drop (length bs - unat (last bs)) bs \<noteq> replicate (unat (last bs)) (last bs)
        then Inl (Error ''bad decrypt'')
      else Inr (take (length bs - unat (last bs)) bs))"

definition standin_cipher :: cipher where
  "standin_cipher =
     \<lparr>keyLength = 32, ivLength = 16,
      encipher = (\<lambda>k v bs. mask k v (pkcs7_pad bs)),
      decipher = (\<lambda>k v bs. pkcs7_unpad (unmask k v bs))\<rparr>"

definition ciphers :: "string \<Rightarrow> cipher option" where
  "ciphers algorithm = (if algorithm = ''aes-256-cbc'' then Some standin_cipher else None)"

subsection \<open>RSA keys\<close>

text \<open>
  Four key pairs. The first two have a modulus of two primes, of 624 and of 128 bits,
  and the public exponent 3. The third is a multi-prime key of 634 bits with the public
  exponent 65537: its modulus is the product of the primes listed in \<open>factors3\<close>, all
  below 1024, so that the kernel can check them by trial division. The fourth is a
  multi-prime key of 623 bits with the public exponent 3, over the primes of
  \<open>factors4\<close>.
\<close>

definition public1 :: rsa_key where
  "public1 =
     \<lparr>modulus = 57593577855307059848056407222164653143162258499815601852282106189887448224982207450616733768651055095298517370198970303790910378113224507242005594704993963154575921376203920153404449099617,
      publicExponent = 3,
      privateExponent = None\<rparr>"

definition private1 :: rsa_key where
  "private1 =
     \<lparr>modulus = 57593577855307059848056407222164653143162258499815601852282106189887448224982207450616733768651055095298517370198970303790910378113224507242005594704993963154575921376203920153404449099617,
      publicExponent = 3,
      privateExponent = Some 9598929642551176641342734537027442190527043083302600308713684364981241370830367908436122294772645807029905703933288915784947180758030358478650980860828726427709869849343666220361981463553\<rparr>"

definition public2 :: rsa_key where
  "public2 =
     \<lparr>modulus = 260575541563232287717057528723847343373,
      publicExponent = 3,
      privateExponent = None\<rparr>"

definition private2 :: rsa_key where
  "private2 =
     \<lparr>modulus = 260575541563232287717057528723847343373,
      publicExponent = 3,
      privateExponent = Some 43429256927205381280748363588029872837\<rparr>"

definition public3 :: rsa_key where
  "public3 =
     \<lparr>modulus = 63372698461912572303745107266528408498720192803402436444866397608227547531144696943996662445753753300780966683096278213128704131761830299396204575261268151368867530911482306262602273227413909,
      publicExponent = 65537,
      privateExponent = None\<rparr>"

definition private3 :: rsa_key where
  "private3 =
     \<lparr>modulus = 63372698461912572303745107266528408498720192803402436444866397608227547531144696943996662445753753300780966683096278213128704131761830299396204575261268151368867530911482306262602273227413909,
      publicExponent = 65537,
      privateExponent = Some 27668275073\<rparr>"


definition public4 :: rsa_key where
  "public4 =
     \<lparr>modulus = 21313503794618883414668473308132636188107136599192303678880861237051714782599865453942895598988815014284169805414858914403320073649573507998960444291658218613828883578414652076110228490437,
      publicExponent = 3,
      privateExponent = None\<rparr>"

definition private4 :: rsa_key where
  "private4 =
     \<lparr>modulus = 21313503794618883414668473308132636188107136599192303678880861237051714782599865453942895598988815014284169805414858914403320073649573507998960444291658218613828883578414652076110228490437,
      publicExponent = 3,
      privateExponent = Some 776323668095379373740439790818197016668305488687881831781158092516375668846860948869968970667\<rparr>"


definition keys :: "string \<Rightarrow> rsa_key option" where
  "keys pem =
     (if pem = ''PEM1'' then Some public1
      else if pem = ''PRIV1'' then Some private1
      else if pem = ''PEM2'' then Some public2
      else if pem = ''PRIV2'' then Some private2
      else if pem = ''PEM3'' then Some public3
      else if pem = ''PRIV3'' then Some private3
      else if pem = ''PEM4'' then Some public4
      else if pem = ''PRIV4'' then Some private4
      else None)"

definition node :: platform where
  "node =
     \<lparr>JSON_parse = parse, JSON_stringify = stringify, cipherInfo = ciphers,
      readKey = keys, algorithmEncrypt = ''aes-256-cbc''\<rparr>"

text \<open>
  JSON text is written here with a backquote for each double quote; \<open>dq\<close> puts the
  double quotes in.
\<close>

definition dq :: "string \<Rightarrow> string" where
  "dq s = map (\<lambda>c. if c = CHR 0x60 then CHR 0x22 else c) s"

text \<open>A state of the crypto module with the random bytes given and no call made yet.\<close>

definition fresh :: "buffer \<Rightarrow> crypto_state" where
  "fresh tape = \<lparr>entropy = tape, calls = []\<rparr>"

subsection \<open>Sample data\<close>

text \<open>
  An operation whose context carries the transport request, a backend that reports a
  GraphQL error, a backend whose reply has no field at all, and a backend whose \<open>error\<close>
  field is not JSON text.
\<close>

definition operation1 :: js where
  "operation1 =
     Obj [(''query'', Str ''{ uploads }''),
          (''context'',
           Obj [(''graphqlContext'',
                 Obj [(''req'',
                       Obj [(''headers'', Obj [(''host'', Str ''gateway'')]),
                            (''body'', Obj [(''query'', Str ''{ uploads }'')])])])])]"

definition request1 :: js where
  "request1 = Obj [(''headers'', Str (dq ''{`host`:`gateway`}'')), (''query'', Str ''{ uploads }'')]"

definition failing_backend :: "string \<Rightarrow> js \<Rightarrow> js" where
  "failing_backend url request =
     Obj [(''error'',
           Str (dq (''{`message`:`Cannot query field`,`locations`:[{`line`:1,`column`:3}],''
                    @ ''`extensions`:{`code`:`GRAPHQL_VALIDATION_FAILED`}}'')))]"

definition parsedError1 :: js where
  "parsedError1 =
     Obj [(''message'', Str ''Cannot query field''),
          (''locations'', Arr [Obj [(''line'', Num 1), (''column'', Num 3)]]),
          (''extensions'', Obj [(''code'', Str ''GRAPHQL_VALIDATION_FAILED'')])]"

definition silent_backend :: "string \<Rightarrow> js \<Rightarrow> js" where
  "silent_backend url request = Obj []"

definition garbled_backend :: "string \<Rightarrow> js \<Rightarrow> js" where
  "garbled_backend url request = Obj [(''error'', Str ''oops'')]"

text \<open>
  Payloads for \<open>decryptRequest\<close>: the session blob is wrapped here by the holder of the
  private key of the second pair (a private-key encryption, block type 1), which is what
  \<open>decryptKey\<close> unwraps. \<open>AAAA\<close> is no such wrapping; the three others wrap the texts
  \<open>oops\<close>, \<open>{}\<close> and \<open>null\<close>.
\<close>

definition payload :: "string \<Rightarrow> js" where
  "payload wrapped = Obj [(''encryptedData'', Str ''AAAA''), (''encryptedKey'', Str wrapped)]"

definition after_unwrap :: "string \<Rightarrow> crypto_state" where
  "after_unwrap wrapped =
     \<lparr>entropy = [], calls = [PublicDecrypt (Str ''PEM2'') (b64decode wrapped)]\<rparr>"

definition wrapped_oops :: string where
  "wrapped_oops = ''heT/JNkmnCBNG8h1iTcznw==''"

definition wrapped_empty_object :: string where
  "wrapped_empty_object = ''o38jKn4lVGoRxpCfU2B7EA==''"

definition wrapped_null :: string where
  "wrapped_null = ''Y6jwBYHremHvsKy65pImYA==''"

text \<open>
  An error object as a class derived from \<open>Error\<close> makes it: \<open>stack\<close> and \<open>message\<close> are
  own properties that are not enumerable, the fields the class assigns are enumerable.
\<close>

definition no_prototype :: "string \<Rightarrow> js" where
  "no_prototype k = Undefined"

definition boom :: error_object where
  "boom =
     \<lparr>own = [\<lparr>name = ''stack'', val = Str ''Error: boom at relay'', enumerable = False\<rparr>,
             \<lparr>name = ''message'', val = Str ''boom'', enumerable = False\<rparr>,
             \<lparr>name = ''code'', val = Num 500, enumerable = True\<rparr>,
             \<lparr>name = ''extensions'', val = Obj [(''service'', Str ''file'')],
              enumerable = True\<rparr>],
      inherited = no_prototype\<rparr>"

text \<open>
  A credential store with two records, under the API keys \<open>k1\<close> and \<open>k4\<close>,
  sixty-four bytes for the random source, and the same bytes twice over, cut where a
  call of \<open>encryptResponse\<close> under \<open>k1\<close> stops drawing.
\<close>

definition store1 :: "string \<Rightarrow> string option" where
  "store1 apiKey =
     (if apiKey = ''k1'' then Some (dq ''{`account`:{`publicKey`:`PEM1`}}'')
      else if apiKey = ''k4'' then Some (dq ''{`account`:{`publicKey`:`PEM4`}}'')
      else None)"

definition userData1 :: js where
  "userData1 = Obj [(''account'', Obj [(''publicKey'', Str ''PEM1'')])]"

definition tape1 :: buffer where
  "tape1 =
     [0x3a, 0x91, 0x07, 0xe4, 0x5c, 0xb2, 0x18, 0x6f, 0xd3, 0x24, 0x8a, 0xf1, 0x49, 0x0e, 0xc7, 0x75,
      0x62, 0xbd, 0x33, 0x9c, 0x01, 0xfa, 0x58, 0x86, 0x2b, 0xe0, 0x47, 0x95, 0x1d, 0xc2, 0x7e, 0xa9,
      0x54, 0x0b, 0xd8, 0x36, 0xef, 0x61, 0x9a, 0x13, 0xc5, 0x7c, 0x28, 0xb4, 0x4f, 0xe6, 0x02, 0x8d,
      0x71, 0x00, 0x3e, 0xa5, 0x19, 0xcc, 0x00, 0x67, 0xf8, 0x2d, 0x94, 0x5b, 0xb0, 0x16, 0xeb, 0x43]"





section \<open>Properties\<close>

subsection \<open>Rejections without cryptographic work\<close>

text \<open>
  Claim C4, as stated, fails: the payload is destructured before the guard and outside
  the \<open>try\<close> block, so on the payload \<open>null\<close> (which has neither field)
  \<open>decryptRequest\<close> throws a \<open>TypeError\<close>, not an \<open>AuthenticationError\<close>. The state of
  the crypto module is untouched there too.
\<close>

theorem decryptRequest_null_payload:
  "property Null ''encryptedData'' = Undefined
   \<and> decryptRequest node Null (Str ''PEM2'') ''aes-256-cbc'' (fresh [1, 2, 3]) =
       (Inl (TypeError ''Cannot read property encryptedData of null''), fresh [1, 2, 3])"
  by (simp add: decryptRequest_def)

text \<open>
  Claim C4, amended. When the payload lacks \<open>encryptedData\<close> or lacks
  \<open>encryptedKey\<close> (reading the field gives \<open>undefined\<close>), the state of the crypto
  module after \<open>decryptRequest\<close> is the one it started from: no call was logged (no key
  unwrap, no decipher) and no random byte was drawn. When moreover the payload is neither
  \<open>null\<close> nor \<open>undefined\<close>, what \<open>decryptRequest\<close> throws is an
  \<open>AuthenticationError\<close>.
\<close>

theorem decryptRequest_missing_field:
  assumes "property data ''encryptedData'' = Undefined \<or> property data ''encryptedKey'' = Undefined"
  shows "snd (decryptRequest rt data publicKey algorithm st) = st
       \<and> (data \<noteq> Null \<longrightarrow> data \<noteq> Undefined \<longrightarrow>
            decryptRequest rt data publicKey algorithm st =
              (Inl (AuthenticationError (Str ''encrypted data, encrypted key cannot null'')), st))"
  using assms by (cases data) (auto simp: decryptRequest_def)

theorem decryptRequest_missing_field_witness:
  "(property (Obj [(''encryptedData'', Str ''AAAA'')]) ''encryptedData'' = Undefined
      \<or> property (Obj [(''encryptedData'', Str ''AAAA'')]) ''encryptedKey'' = Undefined)
   \<and> Obj [(''encryptedData'', Str ''AAAA'')] \<noteq> Null
   \<and> Obj [(''encryptedData'', Str ''AAAA'')] \<noteq> Undefined
   \<and> snd (decryptRequest node (Obj [(''encryptedData'', Str ''AAAA'')]) (Str ''PEM2'')
              ''aes-256-cbc'' (fresh [1, 2, 3])) = fresh [1, 2, 3]
   \<and> decryptRequest node (Obj [(''encryptedData'', Str ''AAAA'')]) (Str ''PEM2'')
         ''aes-256-cbc'' (fresh [1, 2, 3]) =
       (Inl (AuthenticationError (Str ''encrypted data, encrypted key cannot null'')),
        fresh [1, 2, 3])"
proof -
  have h: "property (Obj [(''encryptedData'', Str ''AAAA'')]) ''encryptedData'' = Undefined
             \<or> property (Obj [(''encryptedData'', Str ''AAAA'')]) ''encryptedKey'' = Undefined"
    by simp
  have n: "Obj [(''encryptedData'', Str ''AAAA'')] \<noteq> Null"
          "Obj [(''encryptedData'', Str ''AAAA'')] \<noteq> Undefined"
    by simp_all
  note T = decryptRequest_missing_field [OF h, where rt = node and publicKey = "Str ''PEM2''"
             and algorithm = "''aes-256-cbc''" and st = "fresh [1, 2, 3]"]
  show ?thesis
    using h n T by blast
qed

text \<open>
  Claim C5. For an API key without a record in the credential store,
  \<open>encryptResponse\<close> throws \<open>ResourceNotFound\<close> and the state of the crypto module is
  the one it started from: no random bytes drawn for key or iv, no cipher created, no
  key wrapped.
\<close>

theorem encryptResponse_unknown_apiKey:
  assumes "redis apiKey = None"
  shows "encryptResponse rt redis responseData apiKey algorithm st =
           (Inl (ResourceNotFound (Str ''Invalid api key'')), st)"
  using assms by (simp add: encryptResponse_def)

theorem encryptResponse_unknown_apiKey_witness:
  "Map.empty ''k1'' = None
   \<and> encryptResponse node Map.empty (Obj [(''ok'', Bool True)]) ''k1'' None (fresh [1, 2, 3]) =
       (Inl (ResourceNotFound (Str ''Invalid api key'')), fresh [1, 2, 3])"
  using encryptResponse_unknown_apiKey [of Map.empty "''k1''"] by simp

subsection \<open>The relay dispatcher\<close>

text \<open>
  Claim C6, as stated, fails: when the \<open>error\<close> field of the reply is not JSON text,
  \<open>JSON.parse\<close> throws inside the RPC callback, nothing catches it, and the promise is
  neither rejected with a \<open>ParserError\<close> nor settled at all.
\<close>

theorem relay_error_not_json:
  "relay_request node operation1 = Inr request1
   \<and> get (garbled_backend ''localhost:50051'' request1) [''error''] = Str ''oops''
   \<and> relay node garbled_backend ''localhost:50051'' operation1 =
       Uncaught (SyntaxError ''Unexpected token in JSON'')"
  by code_simp

text \<open>
  Claim C6, amended. When the reply of the backend carries an \<open>error\<close> field that is
  truthy and that \<open>JSON.parse\<close> reads, the promise is rejected with a \<open>ParserError\<close>
  built from the \<open>message\<close>, \<open>extensions\<close> and \<open>locations\<close> of the parsed error,
  unchanged.
\<close>

theorem relay_backend_error:
  assumes "relay_request rt operation = Inr request"
      and "truthy (get (callRequest url request) [''error''])"
      and "JSON_parse rt (get (callRequest url request) [''error'']) = Inr parsedError"
  shows "relay rt callRequest url operation =
           Rejected (ParserError (get parsedError [''message''])
                                 (get parsedError [''extensions''])
                                 (get parsedError [''locations'']))"
  using assms by (simp add: relay_def relay_callback_def)

theorem relay_backend_error_witness:
  "relay_request node operation1 = Inr request1
   \<and> truthy (get (failing_backend ''localhost:50051'' request1) [''error''])
   \<and> JSON_parse node (get (failing_backend ''localhost:50051'' request1) [''error'']) =
       Inr parsedError1
   \<and> relay node failing_backend ''localhost:50051'' operation1 =
       Rejected (ParserError (Str ''Cannot query field'')
                             (Obj [(''code'', Str ''GRAPHQL_VALIDATION_FAILED'')])
                             (Arr [Obj [(''line'', Num 1), (''column'', Num 3)]]))"
proof -
  have 1: "relay_request node operation1 = Inr request1"
    by code_simp
  have 2: "truthy (get (failing_backend ''localhost:50051'' request1) [''error''])"
    by code_simp
  have 3: "JSON_parse node (get (failing_backend ''localhost:50051'' request1) [''error'']) =
             Inr parsedError1"
    by code_simp
  have 4: "get parsedError1 [''message''] = Str ''Cannot query field''"
          "get parsedError1 [''extensions''] = Obj [(''code'', Str ''GRAPHQL_VALIDATION_FAILED'')]"
          "get parsedError1 [''locations''] = Arr [Obj [(''line'', Num 1), (''column'', Num 3)]]"
    by code_simp+
  show ?thesis
    using 1 2 3
      relay_backend_error [where callRequest = failing_backend and url = "''localhost:50051''",
        OF 1 2 3]
    by (simp only: 4 simp_thms)
qed

text \<open>
  Claim C7. When the reply of the backend has neither \<open>data\<close> nor \<open>error\<close>, the promise
  is rejected with a \<open>ServiceError\<close> whose message starts with the url that the
  dispatcher was bound to.
\<close>

theorem relay_empty_reply:
  assumes "relay_request rt operation = Inr request"
      and "get (callRequest url request) [''error''] = Undefined"
      and "get (callRequest url request) [''data''] = Undefined"
  shows "relay rt callRequest url operation =
           Rejected (ServiceError (Str (url @ '' is not found'')))"
  using assms by (simp add: relay_def relay_callback_def)

theorem relay_empty_reply_witness:
  "relay_request node operation1 = Inr request1
   \<and> get (silent_backend ''localhost:50051'' request1) [''error''] = Undefined
   \<and> get (silent_backend ''localhost:50051'' request1) [''data''] = Undefined
   \<and> relay node silent_backend ''localhost:50051'' operation1 =
       Rejected (ServiceError (Str ''localhost:50051 is not found''))"
proof -
  have 1: "relay_request node operation1 = Inr request1"
    by code_simp
  have 2: "get (silent_backend ''localhost:50051'' request1) [''error''] = Undefined"
    by code_simp
  have 3: "get (silent_backend ''localhost:50051'' request1) [''data''] = Undefined"
    by code_simp
  show ?thesis
    using 1 2 3
      relay_empty_reply [where callRequest = silent_backend and url = "''localhost:50051''",
        OF 1 2 3]
    by simp
qed

subsection \<open>The error translator\<close>

text \<open>
  Claim C8, as stated, fails: an own property that is not enumerable is not forwarded.
  The object \<open>boom\<close> owns \<open>stack\<close>, \<open>message\<close>, \<open>code\<close> and \<open>extensions\<close>; the entry of
  the response has \<open>code\<close>, \<open>message\<close> and \<open>extensions\<close>, and \<open>stack\<close> is dropped.
\<close>

theorem handleError_drops_stack:
  "map name (own boom) = [''stack'', ''message'', ''code'', ''extensions'']
   \<and> body (handleError boom) =
       Obj [(''errors'',
             Arr [Obj [(''code'', Num 500), (''message'', Str ''boom''),
                       (''extensions'', Obj [(''service'', Str ''file'')])]])]"
  by code_simp

text \<open>
  Claim C8, amended. For an error object that owns \<open>code\<close> and \<open>message\<close>, the response
  has status 200 and the body \<open>{errors: [e]}\<close>, where \<open>e\<close> holds the error's \<open>code\<close>,
  its \<open>message\<close>, and then every other own property that is enumerable, with its
  value, in the order of the object, and nothing else.
\<close>

theorem handleError_forwards_enumerable:
  assumes "find (\<lambda>p. name p = ''code'') (own err) = Some pc"
      and "find (\<lambda>p. name p = ''message'') (own err) = Some pm"
  shows "status (handleError err) = 200
       \<and> body (handleError err) =
           Obj [(''errors'',
                 Arr [Obj ((''code'', val pc) # (''message'', val pm) #
                           map (\<lambda>p. (name p, val p))
                             (filter (\<lambda>p. enumerable p \<and> name p \<noteq> ''message''
                                          \<and> name p \<noteq> ''code'')
                                (own err)))])]"
  using assms by (simp add: handleError_def read_def rest_properties_def)

theorem handleError_forwards_enumerable_witness:
  "find (\<lambda>p. name p = ''code'') (own boom) =
     Some \<lparr>name = ''code'', val = Num 500, enumerable = True\<rparr>
   \<and> find (\<lambda>p. name p = ''message'') (own boom) =
     Some \<lparr>name = ''message'', val = Str ''boom'', enumerable = False\<rparr>
   \<and> status (handleError boom) = 200
   \<and> body (handleError boom) =
       Obj [(''errors'',
             Arr [Obj [(''code'', Num 500), (''message'', Str ''boom''),
                       (''extensions'', Obj [(''service'', Str ''file'')])]])]"
proof -
  have 1: "find (\<lambda>p. name p = ''code'') (own boom) =
             Some \<lparr>name = ''code'', val = Num 500, enumerable = True\<rparr>"
    by (simp add: boom_def)
  have 2: "find (\<lambda>p. name p = ''message'') (own boom) =
             Some \<lparr>name = ''message'', val = Str ''boom'', enumerable = False\<rparr>"
    by (simp add: boom_def)
  show ?thesis
    using 1 2 handleError_forwards_enumerable [OF 1 2] by (simp add: boom_def)
qed

subsection \<open>Failures inside the try block of decryptRequest\<close>

text \<open>
  Claim C9. On a payload with both fields present (and truthy, so that the guard
  passes), a failure of the key unwrap, of \<open>JSON.parse\<close> on the unwrapped blob, of the
  destructuring of the parsed value, or of the symmetric decryption makes
  \<open>decryptRequest\<close> throw an \<open>AuthenticationError\<close> whose message is the message of
  that failure. A string is returned only when all the steps succeeded, and then it is
  the whole output of \<open>decryptData\<close>.
\<close>

theorem decryptRequest_failures:
  assumes "truthy encryptedData" and "truthy encryptedKey"
      and "map_of ps ''encryptedData'' = Some encryptedData"
      and "map_of ps ''encryptedKey'' = Some encryptedKey"
  shows "(\<forall>e st1. decryptKey rt publicKey encryptedKey st = (Inl e, st1) \<longrightarrow>
            decryptRequest rt (Obj ps) publicKey algorithm st =
              (Inl (AuthenticationError (message e)), st1))
       \<and> (\<forall>blob e st1. decryptKey rt publicKey encryptedKey st = (Inr blob, st1)
              \<and> JSON_parse rt (Str blob) = Inl e \<longrightarrow>
            decryptRequest rt (Obj ps) publicKey algorithm st =
              (Inl (AuthenticationError (message e)), st1))
       \<and> (\<forall>blob parsed e st1. decryptKey rt publicKey encryptedKey st = (Inr blob, st1)
              \<and> JSON_parse rt (Str blob) = Inr parsed \<and> member parsed ''key'' = Inl e \<longrightarrow>
            decryptRequest rt (Obj ps) publicKey algorithm st =
              (Inl (AuthenticationError (message e)), st1))
       \<and> (\<forall>blob parsed key e st1 st2. decryptKey rt publicKey encryptedKey st = (Inr blob, st1)
              \<and> JSON_parse rt (Str blob) = Inr parsed \<and> member parsed ''key'' = Inr key
              \<and> decryptData rt encryptedData key (property parsed ''iv'')
                    algorithm st1 = (Inl e, st2) \<longrightarrow>
            decryptRequest rt (Obj ps) publicKey algorithm st =
              (Inl (AuthenticationError (message e)), st2))
       \<and> (\<forall>plain st2. decryptRequest rt (Obj ps) publicKey algorithm st = (Inr plain, st2) \<longrightarrow>
            (\<exists>blob parsed key st1. decryptKey rt publicKey encryptedKey st = (Inr blob, st1)
               \<and> JSON_parse rt (Str blob) = Inr parsed \<and> member parsed ''key'' = Inr key
               \<and> decryptData rt encryptedData key (property parsed ''iv'')
                    algorithm st1 = (Inr plain, st2)))"
  using assms
  by (auto simp: decryptRequest_def decryptRequest_try_def split: prod.splits sum.splits js.splits)

theorem decryptRequest_failures_witness:
  "decryptKey node (Str ''PEM2'') (Str ''AAAA'') (fresh []) =
     (Inl (Error ''block type is not 01''), after_unwrap ''AAAA'')
   \<and> decryptRequest node (payload ''AAAA'') (Str ''PEM2'') ''aes-256-cbc'' (fresh []) =
     (Inl (AuthenticationError (Str ''block type is not 01'')), after_unwrap ''AAAA'')
   \<and> decryptKey node (Str ''PEM2'') (Str wrapped_oops) (fresh []) =
     (Inr ''oops'', after_unwrap wrapped_oops)
   \<and> JSON_parse node (Str ''oops'') = Inl (SyntaxError ''Unexpected token in JSON'')
   \<and> decryptRequest node (payload wrapped_oops) (Str ''PEM2'') ''aes-256-cbc'' (fresh []) =
     (Inl (AuthenticationError (Str ''Unexpected token in JSON'')), after_unwrap wrapped_oops)
   \<and> decryptKey node (Str ''PEM2'') (Str wrapped_null) (fresh []) =
     (Inr ''null'', after_unwrap wrapped_null)
   \<and> JSON_parse node (Str ''null'') = Inr Null
   \<and> member Null ''key'' = Inl (TypeError ''Cannot read property key of null'')
   \<and> decryptRequest node (payload wrapped_null) (Str ''PEM2'') ''aes-256-cbc'' (fresh []) =
     (Inl (AuthenticationError (Str ''Cannot read property key of null'')), after_unwrap wrapped_null)
   \<and> decryptKey node (Str ''PEM2'') (Str wrapped_empty_object) (fresh []) =
     (Inr ''{}'', after_unwrap wrapped_empty_object)
   \<and> JSON_parse node (Str ''{}'') = Inr (Obj [])
   \<and> decryptData node (Str ''AAAA'') Undefined Undefined ''aes-256-cbc''
         (after_unwrap wrapped_empty_object) =
     (Inl (TypeError ''The key argument must be of type string''),
      called (CreateDecipheriv ''aes-256-cbc'' Undefined Undefined)
        (after_unwrap wrapped_empty_object))
   \<and> decryptRequest node (payload wrapped_empty_object) (Str ''PEM2'') ''aes-256-cbc'' (fresh []) =
     (Inl (AuthenticationError (Str ''The key argument must be of type string'')),
      called (CreateDecipheriv ''aes-256-cbc'' Undefined Undefined)
        (after_unwrap wrapped_empty_object))"
proof -
  have t: "truthy (Str ''AAAA'')" "truthy (Str wrapped_oops)" "truthy (Str wrapped_null)"
          "truthy (Str wrapped_empty_object)"
    by (simp_all add: wrapped_oops_def wrapped_null_def wrapped_empty_object_def)
  have m: "\<And>w. map_of [(''encryptedData'', Str ''AAAA''), (''encryptedKey'', Str w)]
                  ''encryptedData'' = Some (Str ''AAAA'')"
          "\<And>w. map_of [(''encryptedData'', Str ''AAAA''), (''encryptedKey'', Str w)]
                  ''encryptedKey'' = Some (Str w)"
    by simp_all
  have a: "decryptKey node (Str ''PEM2'') (Str ''AAAA'') (fresh []) =
             (Inl (Error ''block type is not 01''), after_unwrap ''AAAA'')"
    by code_simp
  have b: "decryptKey node (Str ''PEM2'') (Str wrapped_oops) (fresh []) =
             (Inr ''oops'', after_unwrap wrapped_oops)"
    by code_simp
  have b': "JSON_parse node (Str ''oops'') = Inl (SyntaxError ''Unexpected token in JSON'')"
    by code_simp
  have c: "decryptKey node (Str ''PEM2'') (Str wrapped_null) (fresh []) =
             (Inr ''null'', after_unwrap wrapped_null)"
    by code_simp
  have c': "JSON_parse node (Str ''null'') = Inr Null"
    by code_simp
  have c'': "member Null ''key'' = Inl (TypeError ''Cannot read property key of null'')"
    by simp
  have d: "decryptKey node (Str ''PEM2'') (Str wrapped_empty_object) (fresh []) =
             (Inr ''{}'', after_unwrap wrapped_empty_object)"
    by code_simp
  have d': "JSON_parse node (Str ''{}'') = Inr (Obj [])"
    by code_simp
  have d'': "decryptData node (Str ''AAAA'') Undefined Undefined ''aes-256-cbc''
               (after_unwrap wrapped_empty_object) =
             (Inl (TypeError ''The key argument must be of type string''),
              called (CreateDecipheriv ''aes-256-cbc'' Undefined Undefined)
                (after_unwrap wrapped_empty_object))"
    by (simp add: decryptData_def cipher_args_def)
  note A = decryptRequest_failures [where rt = node and publicKey = "Str ''PEM2''"
      and st = "fresh []" and algorithm = "''aes-256-cbc''", OF t(1) t(1) m(1) m(2)]
  note B = decryptRequest_failures [where rt = node and publicKey = "Str ''PEM2''"
      and st = "fresh []" and algorithm = "''aes-256-cbc''", OF t(1) t(2) m(1) m(2)]
  note C = decryptRequest_failures [where rt = node and publicKey = "Str ''PEM2''"
      and st = "fresh []" and algorithm = "''aes-256-cbc''", OF t(1) t(3) m(1) m(2)]
  note D = decryptRequest_failures [where rt = node and publicKey = "Str ''PEM2''"
      and st = "fresh []" and algorithm = "''aes-256-cbc''", OF t(1) t(4) m(1) m(2)]
  have 1: "decryptRequest node (payload ''AAAA'') (Str ''PEM2'') ''aes-256-cbc'' (fresh []) =
             (Inl (AuthenticationError (Str ''block type is not 01'')), after_unwrap ''AAAA'')"
    using A [THEN conjunct1, rule_format, OF a] by (simp add: payload_def)
  have 2: "decryptRequest node (payload wrapped_oops) (Str ''PEM2'') ''aes-256-cbc'' (fresh []) =
             (Inl (AuthenticationError (Str ''Unexpected token in JSON'')),
              after_unwrap wrapped_oops)"
    using B [THEN conjunct2, THEN conjunct1, rule_format, OF conjI [OF b b']]
    by (simp add: payload_def)
  have 3: "decryptRequest node (payload wrapped_null) (Str ''PEM2'') ''aes-256-cbc'' (fresh []) =
             (Inl (AuthenticationError (Str ''Cannot read property key of null'')),
              after_unwrap wrapped_null)"
    using C [THEN conjunct2, THEN conjunct2, THEN conjunct1, rule_format,
             OF conjI [OF c conjI [OF c' c'']]]
    by (simp add: payload_def)
  have p: "member (Obj []) ''key'' = Inr Undefined"
    by simp
  have q: "decryptData node (Str ''AAAA'') Undefined (property (Obj []) ''iv'') ''aes-256-cbc''
               (after_unwrap wrapped_empty_object) =
             (Inl (TypeError ''The key argument must be of type string''),
              called (CreateDecipheriv ''aes-256-cbc'' Undefined Undefined)
                (after_unwrap wrapped_empty_object))"
    using d'' by simp
  have 4: "decryptRequest node (payload wrapped_empty_object) (Str ''PEM2'') ''aes-256-cbc''
             (fresh []) =
           (Inl (AuthenticationError (Str ''The key argument must be of type string'')),
            called (CreateDecipheriv ''aes-256-cbc'' Undefined Undefined)
              (after_unwrap wrapped_empty_object))"
    using D [THEN conjunct2, THEN conjunct2, THEN conjunct2, THEN conjunct1, rule_format,
             OF conjI [OF d conjI [OF d' conjI [OF p q]]]]
    by (simp add: payload_def)
  show ?thesis
    by (intro conjI a b b' c c' c'' d d' d'' 1 2 3 4)
qed

subsection \<open>The session key and iv\<close>

text \<open>Hex text: two digits per byte, all of them lowercase hexadecimal digits.\<close>

lemma length_hexByte [simp]: "length (hexByte b) = 2"
  by (simp add: hexByte_def)

lemma length_toHex [simp]: "length (toHex bs) = 2 * length bs"
  by (induction bs) (simp_all add: toHex_def)

lemma toHex_Cons: "toHex (b # bs) = hexByte b @ toHex bs"
  by (simp add: toHex_def)

lemma take_toHex: "take (2 * n) (toHex bs) = toHex (take n bs)"
proof (induction bs arbitrary: n)
  case Nil
  then show ?case by (simp add: toHex_def)
next
  case (Cons b bs)
  show ?case
  proof (cases n)
    case 0
    then show ?thesis by (simp add: toHex_def)
  next
    case (Suc m)
    then show ?thesis using Cons [of m] by (simp add: toHex_Cons)
  qed
qed

lemma hexDigit_lower: "d < 16 \<Longrightarrow> lower_hex (hexDigit d)"
  by (simp add: hexDigit_def lower_hex_def)

lemma hexByte_lower: "list_all lower_hex (hexByte b)"
proof -
  have "unat b < 256"
    using unsigned_less [of b, where ?'a = nat] by simp
  then have "unat b div 16 < 16"
    by simp
  then show ?thesis
    by (simp add: hexByte_def hexDigit_lower)
qed

lemma toHex_lower: "list_all lower_hex (toHex bs)"
  by (induction bs) (simp_all add: toHex_def hexByte_lower)

text \<open>What each step adds to the log of calls.\<close>

lemma calls_randomBytes: "calls (snd (randomBytes n st)) = calls st @ [RandomBytes n]"
  by (simp add: randomBytes_def called_def Let_def)

lemma calls_publicEncrypt:
  "calls (snd (publicEncrypt rt key data st)) = calls st @ [PublicEncrypt key data]"
  by (simp add: publicEncrypt_def called_def Let_def split: sum.splits option.splits prod.splits)

lemma calls_encryptKey:
  "\<exists>more. calls (snd (encryptKey rt publicKey symmetricKey st)) = calls st @ more"
proof (cases "Buffer_from symmetricKey Utf8")
  case (Inl e)
  then show ?thesis by (simp add: encryptKey_def)
next
  case (Inr buf)
  then show ?thesis
    using calls_publicEncrypt [of rt publicKey buf st]
    by (cases "publicEncrypt rt publicKey buf st") (auto simp: encryptKey_def split: sum.splits)
qed

lemma calls_encryptData:
  "\<exists>more. calls (snd (encryptData rt data key iv algorithm st)) =
      calls st @ CreateCipheriv algorithm key iv # more"
  by (auto simp: encryptData_def called_def Let_def split: sum.splits prod.splits)

lemma randomBytes_enough:
  "n \<le> length (entropy st) \<Longrightarrow>
     randomBytes n st =
       (Inr (take n (entropy st)),
        \<lparr>entropy = drop n (entropy st), calls = calls st @ [RandomBytes n]\<rparr>)"
  by (simp add: randomBytes_def called_def Let_def)

text \<open>
  Claim C10. When the API key has a record that \<open>JSON.parse\<close> reads and the random
  source delivers the forty-eight bytes asked of it, \<open>encryptResponse\<close> calls
  \<open>randomBytes(32)\<close>, \<open>randomBytes(16)\<close> and then \<open>createCipheriv\<close> with a key and an
  iv that are: the first 32 characters of the hex text of the 32 bytes, which is the hex
  text of the first 16 of them alone (128 bits, the other 16 bytes are not used), 32
  characters long and made of lowercase hexadecimal digits; and the first 16 characters
  of the hex text of the 16 bytes, which is the hex text of the first 8 of them, 16
  characters long and made of lowercase hexadecimal digits.
\<close>

theorem encryptResponse_session_material:
  assumes "redis apiKey = Some apiKeyData" and "apiKeyData \<noteq> []"
      and "JSON_parse rt (Str apiKeyData) = Inr userData"
      and "48 \<le> length (entropy st)"
  shows "(\<exists>more. calls (snd (encryptResponse rt redis responseData apiKey algorithm st)) =
            calls st @ [RandomBytes 32, RandomBytes 16,
                        CreateCipheriv (case algorithm of None \<Rightarrow> algorithmEncrypt rt | Some a \<Rightarrow> a)
                          (Str (take 32 (toHex (take 32 (entropy st)))))
                          (Str (take 16 (toHex (take 16 (drop 32 (entropy st))))))] @ more)
       \<and> take 32 (toHex (take 32 (entropy st))) = toHex (take 16 (entropy st))
       \<and> length (toHex (take 16 (entropy st))) = 32
       \<and> list_all lower_hex (toHex (take 16 (entropy st)))
       \<and> take 16 (toHex (take 16 (drop 32 (entropy st)))) = toHex (take 8 (drop 32 (entropy st)))
       \<and> length (toHex (take 8 (drop 32 (entropy st)))) = 16
       \<and> list_all lower_hex (toHex (take 8 (drop 32 (entropy st))))"
proof -
  let ?alg = "case algorithm of None \<Rightarrow> algorithmEncrypt rt | Some a \<Rightarrow> a"
  let ?key = "take 32 (toHex (take 32 (entropy st)))"
  let ?iv = "take 16 (toHex (take 16 (drop 32 (entropy st))))"
  let ?st1 = "\<lparr>entropy = drop 32 (entropy st), calls = calls st @ [RandomBytes 32]\<rparr>"
  let ?st2 = "\<lparr>entropy = drop 16 (drop 32 (entropy st)),
               calls = (calls st @ [RandomBytes 32]) @ [RandomBytes 16]\<rparr>"
  have r1: "randomBytes 32 st = (Inr (take 32 (entropy st)), ?st1)"
    using assms(4) by (simp add: randomBytes_enough)
  have r2: "randomBytes 16 ?st1 = (Inr (take 16 (drop 32 (entropy st))), ?st2)"
    using assms(4) randomBytes_enough [of 16 ?st1] by simp
  obtain r3 st3 where d: "encryptData rt (JSON_stringify rt responseData) (Str ?key) (Str ?iv) ?alg ?st2 = (r3, st3)"
    by (cases "encryptData rt (JSON_stringify rt responseData) (Str ?key) (Str ?iv) ?alg ?st2")
  obtain m3 where c3: "calls st3 = calls ?st2 @ CreateCipheriv ?alg (Str ?key) (Str ?iv) # m3"
    using calls_encryptData [of rt "JSON_stringify rt responseData" "Str ?key" "Str ?iv" ?alg ?st2] d
    by auto
  have log: "\<exists>more. calls (snd (encryptResponse rt redis responseData apiKey algorithm st)) =
            calls st @ [RandomBytes 32, RandomBytes 16, CreateCipheriv ?alg (Str ?key) (Str ?iv)] @ more"
  proof (cases r3)
    case (Inl e)
    then show ?thesis
      using assms(1-3) r1 r2 d c3 by (simp add: encryptResponse_def)
  next
    case (Inr encryptedData)
    let ?blob = "JSON_stringify rt (Obj [(''key'', Str ?key), (''iv'', Str ?iv)])"
    obtain m4 where c4: "calls (snd (encryptKey rt (get userData [''account'', ''publicKey'']) ?blob st3)) = calls st3 @ m4"
      using calls_encryptKey by blast
    show ?thesis
      using assms(1-3) r1 r2 d c3 c4 Inr
      by (cases "encryptKey rt (get userData [''account'', ''publicKey'']) ?blob st3")
         (auto simp: encryptResponse_def split: sum.splits)
  qed
  have k: "take 32 (toHex (take 32 (entropy st))) = toHex (take 16 (entropy st))"
    using take_toHex [of 16 "take 32 (entropy st)"] by simp
  have v: "take 16 (toHex (take 16 (drop 32 (entropy st)))) = toHex (take 8 (drop 32 (entropy st)))"
    using take_toHex [of 8 "take 16 (drop 32 (entropy st))"] by simp
  have lk: "length (toHex (take 16 (entropy st))) = 32"
    using assms(4) by simp
  have lv: "length (toHex (take 8 (drop 32 (entropy st)))) = 16"
    using assms(4) by simp
  show ?thesis
    using log k v lk lv toHex_lower by blast
qed

theorem encryptResponse_session_material_witness:
  "store1 ''k1'' = Some (dq ''{`account`:{`publicKey`:`PEM1`}}'')
   \<and> dq ''{`account`:{`publicKey`:`PEM1`}}'' \<noteq> []
   \<and> JSON_parse node (Str (dq ''{`account`:{`publicKey`:`PEM1`}}'')) = Inr userData1
   \<and> 48 \<le> length (entropy (fresh tape1))
   \<and> ((\<exists>more. calls (snd (encryptResponse node store1 (Obj [(''ok'', Bool True)]) ''k1''
                            (Some ''aes-256-cbc'') (fresh tape1))) =
            calls (fresh tape1) @ [RandomBytes 32, RandomBytes 16,
                        CreateCipheriv
                          (case Some ''aes-256-cbc'' of None \<Rightarrow> algorithmEncrypt node | Some a \<Rightarrow> a)
                          (Str (take 32 (toHex (take 32 (entropy (fresh tape1))))))
                          (Str (take 16 (toHex (take 16 (drop 32 (entropy (fresh tape1)))))))] @ more)
       \<and> take 32 (toHex (take 32 (entropy (fresh tape1)))) = toHex (take 16 (entropy (fresh tape1)))
       \<and> length (toHex (take 16 (entropy (fresh tape1)))) = 32
       \<and> list_all lower_hex (toHex (take 16 (entropy (fresh tape1))))
       \<and> take 16 (toHex (take 16 (drop 32 (entropy (fresh tape1))))) =
           toHex (take 8 (drop 32 (entropy (fresh tape1))))
       \<and> length (toHex (take 8 (drop 32 (entropy (fresh tape1))))) = 16
       \<and> list_all lower_hex (toHex (take 8 (drop 32 (entropy (fresh tape1))))))
   \<and> toHex (take 16 (entropy (fresh tape1))) = ''3a9107e45cb2186fd3248af1490ec775''
   \<and> toHex (take 8 (drop 32 (entropy (fresh tape1)))) = ''540bd836ef619a13''"
proof -
  have 1: "store1 ''k1'' = Some (dq ''{`account`:{`publicKey`:`PEM1`}}'')"
    by (simp add: store1_def)
  have 2: "dq ''{`account`:{`publicKey`:`PEM1`}}'' \<noteq> []"
    by (simp add: dq_def)
  have 3: "JSON_parse node (Str (dq ''{`account`:{`publicKey`:`PEM1`}}'')) = Inr userData1"
    by code_simp
  have 4: "48 \<le> length (entropy (fresh tape1))"
    by (simp add: fresh_def tape1_def)
  have k: "toHex (take 16 (entropy (fresh tape1))) = ''3a9107e45cb2186fd3248af1490ec775''"
    by code_simp
  have v: "toHex (take 8 (drop 32 (entropy (fresh tape1)))) = ''540bd836ef619a13''"
    by code_simp
  note T = encryptResponse_session_material [where redis = store1 and apiKey = "''k1''"
             and responseData = "Obj [(''ok'', Bool True)]" and algorithm = "Some ''aes-256-cbc''",
             OF 1 2 3 4]
  show ?thesis
    by (rule conjI [OF 1 conjI [OF 2 conjI [OF 3 conjI [OF 4 conjI [OF T conjI [OF k v]]]]]])
qed

subsection \<open>Arithmetic behind RSA\<close>















subsection \<open>Octet strings, padding and text encodings\<close>


lemma os2ip_Nil [simp]: "os2ip [] = 0"
  by (simp add: os2ip_def)






lemma length_i2osp [simp]: "length (i2osp l x) = l"
  by (induction l arbitrary: x) simp_all

















lemma of_char_char_of: "m < 256 \<Longrightarrow> (of_char (char_of m) :: nat) = m"
  by simp





lemma sextets_pad [simp]: "sextets (CHR ''='' # s) = []" "sextets [] = []"
  by (simp_all add: sextets_def map_filter_simps)
















subsection \<open>Wrapping and unwrapping under a key pair\<close>




subsection \<open>What encryptResponse returns\<close>















subsection \<open>The sample envelope\<close>















subsection \<open>decryptKey and encryptKey\<close>




subsection \<open>decryptRequest and encryptResponse\<close>




subsection \<open>Two calls of encryptResponse\<close>




end
